theory Spec2Isabelle
  imports Complex_Main "HOL-Library.AList"
begin

section \<open>Archives, files and the log\<close>

text \<open>
  A member of a TAR archive, as \<^verbatim>\<open>tarfile.TarInfo\<close> presents it to \<^verbatim>\<open>main.py\<close>:
  the member name, \<^verbatim>\<open>isdir()\<close>, the header's size field, the bytes of the member and
  whether \<^verbatim>\<open>TarFile.extractfile\<close> on this member returns (\<open>readable\<close>) or raises, as it
  does for a link whose target is missing. An archive is the list \<^verbatim>\<open>getmembers()\<close>
  returns, in the archive's own order.
\<close>

record tarinfo =
  name :: string
  isdir :: bool
  tsize :: nat
  payload :: string
  readable :: bool

type_synonym archive = "tarinfo list"

text \<open>A node of an extracted directory tree, keyed by its path relative to the tree's root.\<close>

datatype node = File string | Dir

type_synonym tree = "(string \<times> node) list"

datatype error =
    KeyError
  | FileNotFoundError
  | ReadError
  | IsADirectoryError
  | ManifestParseError
  | EntryReadError

datatype level = INFO | WARNING | ERROR

text \<open>
  The messages of \<^verbatim>\<open>logger\<close>, one constructor per format string of the source, carrying
  the interpolated values (numbers are kept as numbers, not as their rendering).
\<close>

datatype message =
    ManifestNotFoundIn string
  | FailedBaseLayers
  | CouldNotProcess string error
  | CouldNotAdd string error
  | TotalToTransfer real
  | KeptOldLayers nat
  | NewLayers nat
  | SummaryHeader
  | SummaryReuse nat
  | SummaryNew nat
  | SummarySize real
  | SummaryDiffFile string
  | SummaryFooter
  | StartingMerge string string string
  | ExtractingBase string
  | ExtractingDiff string
  | MergingFiles
  | FoundLayers nat
  | CreatingOutput string
  | MergedCreated string
  | ErrorDuringMerge error
  | TempCleaned

type_synonym log_entry = "level \<times> message"

text \<open>
  What a path of the file system holds: a TAR archive, the JSON array of strings that
  \<^verbatim>\<open>json.dump(kept_layers, f)\<close> writes, or any other bytes.
\<close>

datatype fobj = Tar archive | JsonList "string list" | Other string

record world =
  files :: "string \<rightharpoonup> fobj"
  log :: "log_entry list"

definition logger :: "level \<Rightarrow> message \<Rightarrow> world \<Rightarrow> world" where
  "logger l m w = w\<lparr>log := log w @ [(l, m)]\<rparr>"

section \<open>Strings and the archive accessor\<close>

text \<open>Python's \<^verbatim>\<open>s.split(c)\<close> for a one-character separator: never the empty list.\<close>

fun split :: "char \<Rightarrow> string \<Rightarrow> string list" where
  "split c [] = [[]]"
| "split c (x # xs) =
     (if x = c then [] # split c xs
      else (case split c xs of [] \<Rightarrow> [[x]] | w # ws \<Rightarrow> (x # w) # ws))"

text \<open>\<^verbatim>\<open>tarfile.open(path)\<close> for reading.\<close>

definition tarfile_open :: "world \<Rightarrow> string \<Rightarrow> error + archive" where
  "tarfile_open w path =
     (case files w path of
        None \<Rightarrow> Inl FileNotFoundError
      | Some (Tar ms) \<Rightarrow> Inr ms
      | Some _ \<Rightarrow> Inl ReadError)"

text \<open>\<^verbatim>\<open>TarFile.getmember(name)\<close>: the last member of that name.\<close>

definition getmember :: "archive \<Rightarrow> string \<Rightarrow> tarinfo option" where
  "getmember ms n = find (\<lambda>m. name m = n) (rev ms)"

text \<open>
  \<^verbatim>\<open>TarFile.extractfile(name)\<close>: looks the member up by name, raises when it is missing or
  its content cannot be retrieved, returns \<^verbatim>\<open>None\<close> for a directory and the content
  otherwise.
\<close>

definition extractfile :: "archive \<Rightarrow> string \<Rightarrow> error + string option" where
  "extractfile ms n =
     (case getmember ms n of
        None \<Rightarrow> Inl KeyError
      | Some m \<Rightarrow>
          if \<not> readable m then Inl EntryReadError
          else if isdir m then Inr None
          else Inr (Some (payload m)))"

text \<open>
  \<^verbatim>\<open>TarFile.addfile(tarinfo, fileobj)\<close>: the member written carries the header it was given
  and the bytes of \<open>fileobj\<close>; with no \<open>fileobj\<close> only the header is written. The copy
  is taken to deliver the whole of \<open>fileobj\<close>: cutting it to the header's size field, or
  running short of it, is outside the model.
\<close>

definition addfile :: "tarinfo \<Rightarrow> string option \<Rightarrow> tarinfo" where
  "addfile ti f = (case f of None \<Rightarrow> ti | Some d \<Rightarrow> ti\<lparr>payload := d\<rparr>)"

text \<open>
  \<^verbatim>\<open>TarFile.extractall(path)\<close> into a tree: members are extracted in order, a later
  member replacing an earlier one at the same path. A member's name is the relative path
  it is extracted to; parent directories that no member names are not recorded. Failures
  of the extraction itself (a file where a directory is needed, permissions, a full disk)
  are outside the model.
\<close>

definition extract_member :: "tarinfo \<Rightarrow> tree \<Rightarrow> tree" where
  "extract_member m t =
     AList.update (name m) (if isdir m then Dir else File (payload m)) t"

definition extractall :: "archive \<Rightarrow> tree \<Rightarrow> tree" where
  "extractall ms t = fold extract_member ms t"

text \<open>\<^verbatim>\<open>utils/tar_utils.py\<close>, \<^verbatim>\<open>extract_tar\<close>.\<close>

definition extract_tar :: "world \<Rightarrow> string \<Rightarrow> tree \<Rightarrow> error + tree" where
  "extract_tar w tar_path extract_to =
     (case tarfile_open w tar_path of
        Inl e \<Rightarrow> Inl e
      | Inr tar \<Rightarrow> Inr (extractall tar extract_to))"

section \<open>Layer info\<close>

text \<open>
  \<^verbatim>\<open>utils/tar_utils.py\<close>, \<^verbatim>\<open>extract_layers_info\<close>. The parameter \<open>load_layers\<close> stands
  for \<^verbatim>\<open>json.load(f)[0]['Layers']\<close> on the bytes of the manifest: the list of layer paths,
  or \<open>None\<close> when parsing or indexing raises. The returned dictionary is an association
  list; the empty dictionary is \<open>[]\<close>.
\<close>

type_synonym layers_info = "(string \<times> string list) list"


section \<open>The diff builder\<close>

text \<open>The local variables of \<^verbatim>\<open>mode_1_create_diff\<close> that its first loop updates.\<close>

record diff_state =
  files_to_add :: "tarinfo list"
  filenames_to_add :: "string set"
  kept_layers :: "string list"
  total_size :: real
  warned :: "log_entry list"

definition init_state :: diff_state where
  "init_state =
     \<lparr>files_to_add = [], filenames_to_add = {}, kept_layers = [], total_size = 0, warned = []\<rparr>"

text \<open>
  Lines 40 to 47: a directory whose name has no \<open>/\<close> is looked up in
  \<^verbatim>\<open>base_layers["Layers"]\<close>; a missing key raises \<^verbatim>\<open>KeyError\<close>, which the \<^verbatim>\<open>except\<close>
  turns into a warning.
\<close>

definition classify_entry :: "layers_info \<Rightarrow> diff_state \<Rightarrow> tarinfo \<Rightarrow> diff_state" where
  "classify_entry base_layers st file_tar =
     (if isdir file_tar \<and> length (split CHR ''/'' (name file_tar)) < 2 then
        (case map_of base_layers ''Layers'' of
           None \<Rightarrow>
             st\<lparr>warned := warned st @ [(WARNING, CouldNotProcess (name file_tar) KeyError)]\<rparr>
         | Some ls \<Rightarrow>
             if name file_tar \<notin> set ls
             then st\<lparr>filenames_to_add := insert (name file_tar) (filenames_to_add st)\<rparr>
             else st\<lparr>kept_layers := kept_layers st @ [name file_tar]\<rparr>)
      else st)"

text \<open>Lines 49 to 53.\<close>

definition select_entry :: "diff_state \<Rightarrow> tarinfo \<Rightarrow> diff_state" where
  "select_entry st file_tar =
     (let subfiles = split CHR ''/'' (name file_tar);
          root_dir = hd subfiles
      in if root_dir \<in> filenames_to_add st \<or> (length subfiles = 1 \<and> \<not> isdir file_tar)
         then st\<lparr>files_to_add := files_to_add st @ [file_tar],
                 total_size := total_size st + real (tsize file_tar) / 1000000\<rparr>
         else st)"

definition loop_body :: "layers_info \<Rightarrow> tarinfo \<Rightarrow> diff_state \<Rightarrow> diff_state" where
  "loop_body base_layers file_tar st = select_entry (classify_entry base_layers st file_tar) file_tar"

definition diff_loop :: "layers_info \<Rightarrow> archive \<Rightarrow> diff_state" where
  "diff_loop base_layers all_files = fold (loop_body base_layers) all_files init_state"

text \<open>
  Lines 58 to 64: the members written to the new archive and the warnings logged. The
  content is fetched by member name from the archive being read.
\<close>

definition add_entry ::
  "archive \<Rightarrow> tarinfo \<Rightarrow> archive \<times> log_entry list \<Rightarrow> archive \<times> log_entry list" where
  "add_entry tar ti acc =
     (case extractfile tar (name ti) of
        Inl e \<Rightarrow> (fst acc, snd acc @ [(WARNING, CouldNotAdd (name ti) e)])
      | Inr f \<Rightarrow> (fst acc @ [addfile ti f], snd acc))"

definition write_diff :: "archive \<Rightarrow> tarinfo list \<Rightarrow> archive \<times> log_entry list" where
  "write_diff tar to_add = fold (add_entry tar) to_add ([], [])"

definition summary :: "diff_state \<Rightarrow> string \<Rightarrow> log_entry list" where
  "summary st output_diff_tar =
     [(INFO, TotalToTransfer (total_size st)),
      (INFO, KeptOldLayers (length (kept_layers st))),
      (INFO, NewLayers (card (filenames_to_add st))),
      (INFO, SummaryHeader),
      (INFO, SummaryReuse (length (kept_layers st))),
      (INFO, SummaryNew (card (filenames_to_add st))),
      (INFO, SummarySize (total_size st)),
      (INFO, SummaryDiffFile output_diff_tar),
      (INFO, SummaryFooter)]"

definition mode_1_create_diff ::
  "world \<Rightarrow> string \<Rightarrow> layers_info \<Rightarrow> string \<Rightarrow> (error + unit) \<times> world" where
  "mode_1_create_diff w update_src base_layers output_diff_tar =
     (case tarfile_open w update_src of
        Inl e \<Rightarrow> (Inl e, w)
      | Inr all_files \<Rightarrow>
          (let st = diff_loop base_layers all_files;
               removed = (files w)(output_diff_tar := None);
               written = write_diff all_files (files_to_add st);
               with_tar = removed(output_diff_tar \<mapsto> Tar (fst written));
               with_json = with_tar(output_diff_tar @ ''.json'' \<mapsto> JsonList (kept_layers st))
           in (Inr (),
               w\<lparr>files := with_json,
                 log := log w @ warned st @ snd written @ summary st output_diff_tar\<rparr>)))"


section \<open>The merge engine\<close>

text \<open>
  \<^verbatim>\<open>shutil.copytree(src, dst, dirs_exist_ok=True)\<close>: every node of \<open>src\<close> is copied to
  the same relative path of \<open>dst\<close>, replacing what is there. A file meeting a directory
  at the same path, where the library raises, is outside the model.
\<close>

definition copytree :: "tree \<Rightarrow> tree \<Rightarrow> tree" where
  "copytree src dst = fold (\<lambda>(p, n). AList.update p n) src dst"




section \<open>Vocabulary of the properties\<close>

text \<open>
  A regular-file member and a directory member as an archive writer produces them: the
  size field of a file is the length of its content.
\<close>

definition regular :: "string \<Rightarrow> string \<Rightarrow> tarinfo" where
  "regular n c = \<lparr>name = n, isdir = False, tsize = length c, payload = c, readable = True\<rparr>"

definition directory :: "string \<Rightarrow> tarinfo" where
  "directory n = \<lparr>name = n, isdir = True, tsize = 0, payload = [], readable = True\<rparr>"

text \<open>A directory entry at the archive root, a loose root-level file, the root segment.\<close>

definition top_level_dir :: "tarinfo \<Rightarrow> bool" where
  "top_level_dir e = (isdir e \<and> length (split CHR ''/'' (name e)) < 2)"

definition loose_file :: "tarinfo \<Rightarrow> bool" where
  "loose_file e = (length (split CHR ''/'' (name e)) = 1 \<and> \<not> isdir e)"

definition root_segment :: "tarinfo \<Rightarrow> string" where
  "root_segment e = hd (split CHR ''/'' (name e))"

text \<open>
  The New top-level directory names and the Reused ones (in encounter order, one per
  directory entry) among the entries \<open>xs\<close>, against the base's layer dictionary.
\<close>

definition new_dirs :: "layers_info \<Rightarrow> archive \<Rightarrow> string set" where
  "new_dirs bl xs =
     (case map_of bl ''Layers'' of
        None \<Rightarrow> {}
      | Some ls \<Rightarrow> set (map name (filter (\<lambda>d. top_level_dir d \<and> name d \<notin> set ls) xs)))"

definition reused_dirs :: "layers_info \<Rightarrow> archive \<Rightarrow> string list" where
  "reused_dirs bl xs =
     (case map_of bl ''Layers'' of
        None \<Rightarrow> []
      | Some ls \<Rightarrow> map name (filter (\<lambda>d. top_level_dir d \<and> name d \<in> set ls) xs))"

text \<open>
  The entry at position \<open>i\<close> is a loose file, or its root segment is a New directory
  name among the entries up to and including position \<open>i\<close>.
\<close>

definition selected_at :: "layers_info \<Rightarrow> archive \<Rightarrow> nat \<Rightarrow> bool" where
  "selected_at bl xs i =
     (root_segment (xs ! i) \<in> new_dirs bl (take (Suc i) xs) \<or> loose_file (xs ! i))"




definition retrievable :: "archive \<Rightarrow> tarinfo \<Rightarrow> bool" where
  "retrievable tar ti = (case extractfile tar (name ti) of Inl e \<Rightarrow> False | Inr f \<Rightarrow> True)"

definition written_member :: "archive \<Rightarrow> tarinfo \<Rightarrow> tarinfo" where
  "written_member tar ti = (case extractfile tar (name ti) of Inl e \<Rightarrow> ti | Inr f \<Rightarrow> addfile ti f)"

definition read_warning :: "archive \<Rightarrow> tarinfo \<Rightarrow> log_entry list" where
  "read_warning tar ti =
     (case extractfile tar (name ti) of
        Inl e \<Rightarrow> [(WARNING, CouldNotAdd (name ti) e)]
      | Inr f \<Rightarrow> [])"


text \<open>Concrete inputs used below.\<close>

abbreviation (input) ex_layers :: layers_info where
  "ex_layers \<equiv> [(''Layers'', [''base0''])]"

abbreviation (input) ex_mixed :: archive where
  "ex_mixed \<equiv>
     [directory ''layer1'', regular ''layer1/layer.tar'' ''abc'', regular ''manifest.json'' ''m'',
      regular ''layer2/layer.tar'' ''de'', directory ''layer2'', directory ''base0'',
      regular ''base0/layer.tar'' ''f'']"


abbreviation (input) ex_reused_world :: world where
  "ex_reused_world \<equiv>
     \<lparr>files = [''new.tar'' \<mapsto>
         Tar [directory ''base0'', regular ''base0/layer.tar'' ''f'', regular ''manifest.json'' ''m'',
              directory ''base0'']],
      log = []\<rparr>"








section \<open>The selection loop\<close>

lemma split_not_Nil: "split c s \<noteq> []"
  by (induction s) (auto split: list.splits)

lemma diff_loop_Nil: "diff_loop bl [] = init_state"
  by (simp add: diff_loop_def)

lemma diff_loop_snoc: "diff_loop bl (xs @ [x]) = loop_body bl x (diff_loop bl xs)"
  by (simp add: diff_loop_def)

lemma select_entry_proj [simp]:
  "filenames_to_add (select_entry st x) = filenames_to_add st"
  "kept_layers (select_entry st x) = kept_layers st"
  "warned (select_entry st x) = warned st"
  by (simp_all add: select_entry_def Let_def)

lemma classify_entry_proj [simp]:
  "files_to_add (classify_entry bl st x) = files_to_add st"
  "total_size (classify_entry bl st x) = total_size st"
  by (simp_all add: classify_entry_def split: option.splits)

lemma new_dirs_Nil [simp]: "new_dirs bl [] = {}"
  by (simp add: new_dirs_def split: option.splits)

lemma new_dirs_append: "new_dirs bl (xs @ ys) = new_dirs bl xs \<union> new_dirs bl ys"
  by (simp add: new_dirs_def split: option.splits)

lemma reused_dirs_Nil [simp]: "reused_dirs bl [] = []"
  by (simp add: reused_dirs_def split: option.splits)

lemma reused_dirs_append: "reused_dirs bl (xs @ ys) = reused_dirs bl xs @ reused_dirs bl ys"
  by (simp add: reused_dirs_def split: option.splits)

lemma filenames_classify_entry:
  "filenames_to_add (classify_entry bl st x) = filenames_to_add st \<union> new_dirs bl [x]"
  by (auto simp: classify_entry_def new_dirs_def top_level_dir_def split: option.splits)

lemma kept_classify_entry:
  "kept_layers (classify_entry bl st x) = kept_layers st @ reused_dirs bl [x]"
  by (auto simp: classify_entry_def reused_dirs_def top_level_dir_def split: option.splits)

lemma filenames_to_add_loop: "filenames_to_add (diff_loop bl xs) = new_dirs bl xs"
proof (induction xs rule: rev_induct)
  case Nil
  show ?case by (simp add: diff_loop_Nil init_state_def)
next
  case (snoc x xs)
  then show ?case
    by (simp add: diff_loop_snoc loop_body_def filenames_classify_entry new_dirs_append)
qed

lemma kept_layers_loop: "kept_layers (diff_loop bl xs) = reused_dirs bl xs"
proof (induction xs rule: rev_induct)
  case Nil
  show ?case by (simp add: diff_loop_Nil init_state_def)
next
  case (snoc x xs)
  then show ?case
    by (simp add: diff_loop_snoc loop_body_def kept_classify_entry reused_dirs_append)
qed

lemma files_to_add_snoc:
  "files_to_add (diff_loop bl (xs @ [x])) =
     files_to_add (diff_loop bl xs) @
       (if root_segment x \<in> new_dirs bl (xs @ [x]) \<or> loose_file x then [x] else [])"
proof -
  have "filenames_to_add (classify_entry bl (diff_loop bl xs) x) = new_dirs bl (xs @ [x])"
    by (simp add: filenames_classify_entry filenames_to_add_loop new_dirs_append)
  then show ?thesis
    by (simp add: diff_loop_snoc loop_body_def select_entry_def Let_def root_segment_def
        loose_file_def)
qed

lemma nths_cong_lt: "(\<And>i. i < length xs \<Longrightarrow> i \<in> I \<longleftrightarrow> i \<in> J) \<Longrightarrow> nths xs I = nths xs J"
  unfolding nths_def
  by (rule arg_cong [where f = "map fst"], rule filter_cong) (auto simp: in_set_zip)

lemma files_to_add_loop:
  "files_to_add (diff_loop bl xs) = nths xs {i. selected_at bl xs i}"
proof (induction xs rule: rev_induct)
  case Nil
  show ?case by (simp add: diff_loop_Nil init_state_def)
next
  case (snoc x xs)
  have a: "nths xs {i. selected_at bl (xs @ [x]) i} = nths xs {i. selected_at bl xs i}"
    by (rule nths_cong_lt) (simp add: selected_at_def nth_append)
  have b: "selected_at bl (xs @ [x]) (length xs) \<longleftrightarrow>
      root_segment x \<in> new_dirs bl (xs @ [x]) \<or> loose_file x"
    by (simp add: selected_at_def)
  show ?case
    by (simp add: files_to_add_snoc snoc.IH nths_append a b)
qed

section \<open>Writing, extraction and copying\<close>


lemma add_entry_eq:
  "add_entry tar t acc =
     (fst acc @ (if retrievable tar t then [written_member tar t] else []),
      snd acc @ read_warning tar t)"
  by (simp add: add_entry_def retrievable_def written_member_def read_warning_def
      split: sum.splits)

lemma fold_add_entry:
  "fold (add_entry tar) ts acc =
     (fst acc @ map (written_member tar) (filter (retrievable tar) ts),
      snd acc @ concat (map (read_warning tar) ts))"
proof (induction ts arbitrary: acc)
  case Nil
  show ?case by simp
next
  case (Cons t ts)
  have "fold (add_entry tar) (t # ts) acc = fold (add_entry tar) ts (add_entry tar t acc)"
    by simp
  also have "\<dots> =
     (fst (add_entry tar t acc) @ map (written_member tar) (filter (retrievable tar) ts),
      snd (add_entry tar t acc) @ concat (map (read_warning tar) ts))"
    by (rule Cons.IH)
  also have "\<dots> =
     (fst acc @ map (written_member tar) (filter (retrievable tar) (t # ts)),
      snd acc @ concat (map (read_warning tar) (t # ts)))"
    by (simp add: add_entry_eq)
  finally show ?case .
qed

lemma write_diff_eq:
  "write_diff tar ts =
     (map (written_member tar) (filter (retrievable tar) ts), concat (map (read_warning tar) ts))"
  by (simp add: write_diff_def fold_add_entry)

lemma getmember_Nil [simp]: "getmember [] n = None"
  by (simp add: getmember_def)

lemma getmember_snoc: "getmember (ms @ [m]) n = (if name m = n then Some m else getmember ms n)"
  by (simp add: getmember_def)

lemma getmember_Some: "getmember ms n = Some m \<Longrightarrow> m \<in> set ms \<and> name m = n"
  by (induction ms rule: rev_induct) (auto simp: getmember_snoc split: if_splits)

lemma getmember_None: "getmember ms n = None \<longleftrightarrow> n \<notin> name ` set ms"
  by (induction ms rule: rev_induct) (auto simp: getmember_snoc)

lemma getmember_member: "m \<in> set ms \<Longrightarrow> \<exists>m'. getmember ms (name m) = Some m'"
  using getmember_None [of ms "name m"] by (cases "getmember ms (name m)") auto

lemma getmember_distinct:
  "distinct (map name ms) \<Longrightarrow> m \<in> set ms \<Longrightarrow> getmember ms (name m) = Some m"
proof -
  assume d: "distinct (map name ms)" and m: "m \<in> set ms"
  obtain m' where g: "getmember ms (name m) = Some m'" using getmember_member [OF m] by blast
  then have "m' \<in> set ms" "name m' = name m" using getmember_Some by blast+
  with d m have "m' = m" by (meson distinct_map inj_onD)
  with g show ?thesis by simp
qed




lemma copytree_Nil [simp]: "copytree [] dst = dst"
  by (simp add: copytree_def)














section \<open>Which entries are selected\<close>

lemma mode_1_create_diff_eq:
  assumes "files w src = Some (Tar A)"
  shows "mode_1_create_diff w src bl out =
    (Inr (),
     w\<lparr>files := (files w)
          (out \<mapsto> Tar (map (written_member A) (filter (retrievable A) (files_to_add (diff_loop bl A)))),
           out @ ''.json'' \<mapsto> JsonList (reused_dirs bl A)),
       log := log w @ warned (diff_loop bl A)
                @ concat (map (read_warning A) (files_to_add (diff_loop bl A)))
                @ summary (diff_loop bl A) out\<rparr>)"
  using assms
  by (simp add: mode_1_create_diff_def tarfile_open_def Let_def write_diff_eq kept_layers_loop)

lemma selected_subset:
  "set (files_to_add (diff_loop bl A)) \<subseteq>
     {e \<in> set A. root_segment e \<in> filenames_to_add (diff_loop bl A) \<or> loose_file e}"
proof
  fix e assume "e \<in> set (files_to_add (diff_loop bl A))"
  then obtain i where i: "i < length A" "e = A ! i" "selected_at bl A i"
    by (auto simp: files_to_add_loop set_nths)
  have "new_dirs bl (take (Suc i) A) \<subseteq> new_dirs bl A"
    using new_dirs_append [of bl "take (Suc i) A" "drop (Suc i) A"] by simp
  with i show "e \<in> {e \<in> set A. root_segment e \<in> filenames_to_add (diff_loop bl A) \<or> loose_file e}"
    by (auto simp: selected_at_def filenames_to_add_loop)
qed

text \<open>
  C1 (amended). The loop classifies and selects in one pass, so an entry is selected
  exactly when it is a loose root-level file or its root segment is a New top-level
  directory name recorded from a directory entry at or before its own position in the
  archive's member order. Every selected entry has its root segment among the names
  recorded by the end of the loop or is a loose file; the converse needs the directory
  entry to come first.
\<close>

theorem entry_selected_iff_recorded_by_then:
  "files_to_add (diff_loop bl A) =
     nths A {i. root_segment (A ! i) \<in> new_dirs bl (take (Suc i) A) \<or> loose_file (A ! i)}
   \<and> set (files_to_add (diff_loop bl A)) \<subseteq>
       {e \<in> set A. root_segment e \<in> filenames_to_add (diff_loop bl A) \<or> loose_file e}"
  using files_to_add_loop [of bl A] selected_subset [of bl A]
  by (simp add: selected_at_def)

lemmas ev = diff_loop_def loop_body_def select_entry_def classify_entry_def init_state_def Let_def
  top_level_dir_def loose_file_def root_segment_def new_dirs_def reused_dirs_def

lemmas ex = regular_def directory_def

text \<open>
  C1 as stated fails: a file listed before the directory entry of its layer is not
  selected, although its root segment is a recorded New name when the loop ends.
\<close>

theorem entry_before_its_directory_not_selected:
  "\<not> (regular ''layer1/layer.tar'' ''abc''
        \<in> set (files_to_add (diff_loop [(''Layers'', [''base0''])]
             [regular ''layer1/layer.tar'' ''abc'', directory ''layer1'']))
      \<longleftrightarrow>
        root_segment (regular ''layer1/layer.tar'' ''abc'')
          \<in> filenames_to_add (diff_loop [(''Layers'', [''base0''])]
             [regular ''layer1/layer.tar'' ''abc'', directory ''layer1''])
        \<or> loose_file (regular ''layer1/layer.tar'' ''abc''))"
  by (simp add: ev ex)

text \<open>
  C1, a concrete archive: the file of \<open>layer2\<close> precedes its directory entry and is left
  out, the directory entry itself is selected, the Reused layer \<open>base0\<close> is left out.
\<close>

theorem entry_selected_iff_recorded_by_then_witness:
  "nths ex_mixed
     {i. root_segment (ex_mixed ! i) \<in> new_dirs ex_layers (take (Suc i) ex_mixed)
         \<or> loose_file (ex_mixed ! i)}
   = [directory ''layer1'', regular ''layer1/layer.tar'' ''abc'', regular ''manifest.json'' ''m'',
      directory ''layer2'']"
proof -
  have f: "files_to_add (diff_loop ex_layers ex_mixed) =
     [directory ''layer1'', regular ''layer1/layer.tar'' ''abc'', regular ''manifest.json'' ''m'',
      directory ''layer2'']"
    by (simp add: ev ex)
  have "files_to_add (diff_loop ex_layers ex_mixed) =
      nths ex_mixed
       {i. root_segment (ex_mixed ! i) \<in> new_dirs ex_layers (take (Suc i) ex_mixed)
           \<or> loose_file (ex_mixed ! i)}"
    using entry_selected_iff_recorded_by_then [of ex_layers ex_mixed] by (rule conjunct1)
  from this [symmetric] f show ?thesis by (rule trans)
qed







section \<open>Reused layers, read failures and the reported size\<close>







text \<open>
  C10. The side-car holds the name of every top-level directory entry that is a base
  layer, once per entry and in the archive's order: a name listed \<open>k\<close> times as a
  top-level directory appears \<open>k\<close> times.
\<close>

theorem sidecar_keeps_duplicates:
  assumes "files w src = Some (Tar A)"
    and "map_of bl ''Layers'' = Some ls"
  shows "\<exists>w'. mode_1_create_diff w src bl out = (Inr (), w') \<and>
      files w' (out @ ''.json'') =
        Some (JsonList (map name (filter (\<lambda>e. top_level_dir e \<and> name e \<in> set ls) A))) \<and>
      (\<forall>n\<in>set ls. count_list (map name (filter (\<lambda>e. top_level_dir e \<and> name e \<in> set ls) A)) n
          = length (filter (\<lambda>e. top_level_dir e \<and> name e = n) A))"
proof -
  have cnt: "count_list (map name (filter (\<lambda>e. top_level_dir e \<and> name e \<in> set ls) xs)) n
      = length (filter (\<lambda>e. top_level_dir e \<and> name e = n) xs)" if "n \<in> set ls" for n xs
    using that by (induction xs) auto
  show ?thesis
    using assms(2) cnt by (simp add: mode_1_create_diff_eq [OF assms(1)] reused_dirs_def)
qed

text \<open>C10, a concrete run: \<open>base0\<close> is listed twice, and the side-car has it twice.\<close>

theorem sidecar_keeps_duplicates_witness:
  "\<exists>w'. mode_1_create_diff ex_reused_world ''new.tar'' ex_layers ''diff.tar'' = (Inr (), w') \<and>
      files w' ''diff.tar.json'' = Some (JsonList [''base0'', ''base0'']) \<and>
      count_list [''base0'', ''base0''] ''base0'' = 2"
proof -
  let ?A = "[directory ''base0'', regular ''base0/layer.tar'' ''f'', regular ''manifest.json'' ''m'',
       directory ''base0'']"
  have 1: "files ex_reused_world ''new.tar'' = Some (Tar ?A)" by simp
  have 2: "map_of ex_layers ''Layers'' = Some [''base0'']" by simp
  have 3: "map name (filter (\<lambda>e. top_level_dir e \<and> name e \<in> set [''base0'']) ?A)
      = [''base0'', ''base0'']"
    by (simp add: ex top_level_dir_def)
  show ?thesis
    using sidecar_keeps_duplicates [OF 1 2, of "''diff.tar''"] unfolding 3
    by (simp add: ex top_level_dir_def)
qed

lemma written_member_header [simp]:
  "name (written_member A t) = name t"
  "isdir (written_member A t) = isdir t"
  "tsize (written_member A t) = tsize t"
  by (simp_all add: written_member_def addfile_def split: sum.splits option.splits)










section \<open>Missing manifests and the merge\<close>

lemma logger_simps [simp]:
  "files (logger l m w) = files w"
  "log (logger l m w) = log w @ [(l, m)]"
  by (simp_all add: logger_def)

lemma tarfile_open_logger [simp]: "tarfile_open (logger l m w) p = tarfile_open w p"
  by (simp add: tarfile_open_def)

lemma extract_tar_logger [simp]: "extract_tar (logger l m w) p t = extract_tar w p t"
  by (simp add: extract_tar_def)













section \<open>The round trip\<close>











end
